theory Spec2Isabelle
  imports Main
begin

section \<open>Data model\<close>

text \<open>
  The functions of \<^verbatim>\<open>app.py\<close> that hold the decision logic are
  \<^verbatim>\<open>detect_technologies\<close>, \<^verbatim>\<open>generate_setup_steps\<close> and the generators it calls.
  They work on the root listing of a repository (a list of dictionaries with the keys
  \<^verbatim>\<open>name\<close> and \<^verbatim>\<open>type\<close>), on the repository metadata (of which only
  \<^verbatim>\<open>language\<close> is read) and they build a list of step dictionaries.

  Python strings are modelled as \<^typ>\<open>string\<close>; the emoji that open the step titles are
  written as their UTF-8 bytes.
\<close>

record item =
  item_name :: string
  item_type :: string

record repo_data =
  language :: "string option"

record step =
  title :: string
  description :: string
  commands :: "string list"
  step_notes :: "string list"

section \<open>String helpers\<close>

text \<open>
  \<^verbatim>\<open>str.lower\<close> is a builtin of the language, with a mapping for every cased character
  of Unicode. It is not part of the program, so every function that calls it takes it
  as the parameter \<open>lower\<close>, and what is proved holds for whatever that mapping is.
  \<open>ascii_lower\<close> is what \<^verbatim>\<open>str.lower\<close> does on a string of ASCII characters: the letters
  A-Z are folded, every other character is kept. It instantiates \<open>lower\<close> where a
  statement is evaluated on a listing with ASCII names.
\<close>

definition ascii_lower_char :: "char \<Rightarrow> char" where
  "ascii_lower_char c =
     (case map_of (zip ''ABCDEFGHIJKLMNOPQRSTUVWXYZ'' ''abcdefghijklmnopqrstuvwxyz'') c of
        Some d \<Rightarrow> d
      | None \<Rightarrow> c)"

definition ascii_lower :: "string \<Rightarrow> string" where
  "ascii_lower s = map ascii_lower_char s"

text \<open>Python's \<^verbatim>\<open>p in s\<close> on strings: \<open>p\<close> occurs in \<open>s\<close> as a contiguous substring.\<close>

fun str_contains :: "string \<Rightarrow> string \<Rightarrow> bool" where
  "str_contains p [] = (p = [])"
| "str_contains p (c # s) = (take (length p) (c # s) = p \<or> str_contains p s)"

text \<open>Python's \<^verbatim>\<open>' '.join(xs)\<close>.\<close>

fun join_space :: "string list \<Rightarrow> string" where
  "join_space [] = []"
| "join_space [x] = x"
| "join_space (x # y # ys) = x @ '' '' @ join_space (y # ys)"

text \<open>
  The comprehension \<^verbatim>\<open>[item['name'].lower() for item in contents if item['type'] == 'file']\<close>,
  which opens \<^verbatim>\<open>detect_technologies\<close> and every generator that reads the listing.
\<close>

definition files_of :: "(string \<Rightarrow> string) \<Rightarrow> item list \<Rightarrow> string list" where
  "files_of lower contents =
     map (\<lambda>item. lower (item_name item)) (filter (\<lambda>item. item_type item = ''file'') contents)"

section \<open>Technology detection\<close>

definition tech_patterns :: "(string \<times> string list) list" where
  "tech_patterns =
    [(''Python'', [''requirements.txt'', ''setup.py'', ''pyproject.toml'', ''pipfile'',
                   ''conda.yml'', ''environment.yml'']),
     (''Node.js'', [''package.json'', ''package-lock.json'', ''yarn.lock'']),
     (''React'', [''package.json'']),
     (''Django'', [''manage.py'', ''django'']),
     (''Flask'', [''app.py'', ''flask'']),
     (''FastAPI'', [''fastapi'', ''uvicorn'']),
     (''Streamlit'', [''streamlit'', ''.streamlit'']),
     (''Docker'', [''dockerfile'', ''docker-compose.yml'', ''docker-compose.yaml'']),
     (''Java'', [''pom.xml'', ''build.gradle'', ''gradle.properties'']),
     (''Go'', [''go.mod'', ''go.sum'']),
     (''Rust'', [''cargo.toml'', ''cargo.lock'']),
     (''Ruby'', [''gemfile'', ''gemfile.lock'']),
     (''PHP'', [''composer.json'', ''composer.lock'']),
     (''C++'', [''makefile'', ''cmake'', ''cmakelists.txt'']),
     (''HTML/CSS/JS'', [''index.html'', ''style.css'', ''script.js'']),
     (''Vue.js'', [''vue.config.js'', ''nuxt.config.js'']),
     (''Angular'', [''angular.json'', ''ng'']),
     (''Next.js'', [''next.config.js''])]"

text \<open>
  \<^verbatim>\<open>tech_stack\<close> is a Python set. It is modelled by the duplicate-free list of its
  elements in the order in which they were added; \<open>set_add\<close> is \<^verbatim>\<open>tech_stack.add\<close>.
\<close>

definition set_add :: "string \<Rightarrow> string list \<Rightarrow> string list" where
  "set_add t ts = (if t \<in> set ts then ts else ts @ [t])"

definition pattern_hit :: "string list \<Rightarrow> string list \<Rightarrow> bool" where
  "pattern_hit files patterns =
     list_ex (\<lambda>pattern. str_contains pattern (join_space files)) patterns"

definition tech_stack_set :: "(string \<Rightarrow> string) \<Rightarrow> item list \<Rightarrow> repo_data \<Rightarrow> string list" where
  "tech_stack_set lower contents repo_data =
     (let files = files_of lower contents;
          tech_stack = (case language repo_data of
                          None \<Rightarrow> []
                        | Some l \<Rightarrow> if l \<noteq> [] then set_add l [] else [])
      in foldl (\<lambda>stack (tech, patterns).
                  if pattern_hit files patterns then set_add tech stack else stack)
               tech_stack tech_patterns)"

text \<open>
  The function returns \<^verbatim>\<open>list(tech_stack)\<close>: the elements of the set in the order of
  the set's hash table, which depends on the hash values of the strings and not on the
  order of insertion. The parameter \<open>slot\<close> stands for that order (the position of a
  tag in the table); the list is the set's elements sorted by it.
\<close>

definition detect_technologies ::
  "(string \<Rightarrow> string) \<Rightarrow> (string \<Rightarrow> nat) \<Rightarrow> item list \<Rightarrow> repo_data \<Rightarrow> string list" where
  "detect_technologies lower slot contents repo_data =
     sort_key slot (tech_stack_set lower contents repo_data)"

section \<open>Step generators\<close>

definition clone_step :: "string \<Rightarrow> string \<Rightarrow> step" where
  "clone_step owner repo =
     \<lparr>title = [CHR 0xF0, CHR 0x9F, CHR 0x93, CHR 0xA5] @ '' Clone the Repository'',
      description = ''Download the repository to your local machine'',
      commands = [''git clone https://github.com/'' @ owner @ ''/'' @ repo @ ''.git'',
                  ''cd '' @ repo],
      step_notes = [''Make sure you have Git installed on your system'']\<rparr>"

definition venv_step :: step where
  "venv_step =
     \<lparr>title = [CHR 0xF0, CHR 0x9F, CHR 0x90, CHR 0x8D] @ '' Set up Python Environment'',
      description = ''Create and activate a virtual environment'',
      commands = [''python -m venv venv'',
                  ''# On Windows:'',
                  ''venv'' @ [CHR 0x5C] @ ''Scripts'' @ [CHR 0x5C] @ ''activate'',
                  ''# On macOS/Linux:'',
                  ''source venv/bin/activate''],
      step_notes = [''Python 3.7+ recommended'',
               ''Virtual environment helps avoid dependency conflicts'']\<rparr>"

definition install_commands :: "string list \<Rightarrow> string list" where
  "install_commands files =
     (if ''requirements.txt'' \<in> set files then [''pip install -r requirements.txt'']
      else if ''setup.py'' \<in> set files then [''pip install -e .'']
      else if ''pyproject.toml'' \<in> set files then [''pip install -e .'']
      else if ''pipfile'' \<in> set files then [''pip install pipenv'', ''pipenv install'']
      else [''# Check for any Python dependencies and install manually''])"

definition generate_python_steps ::
  "(string \<Rightarrow> string) \<Rightarrow> string \<Rightarrow> string \<Rightarrow> item list \<Rightarrow> step list" where
  "generate_python_steps lower owner repo contents =
     (let files = files_of lower contents in
      [venv_step,
       \<lparr>title = [CHR 0xF0, CHR 0x9F, CHR 0x93, CHR 0xA6] @ '' Install Dependencies'',
        description = ''Install required Python packages'',
        commands = install_commands files,
        step_notes = [''Dependencies are listed in requirements.txt or similar files'']\<rparr>])"

definition generate_node_steps ::
  "(string \<Rightarrow> string) \<Rightarrow> string \<Rightarrow> string \<Rightarrow> item list \<Rightarrow> step list" where
  "generate_node_steps lower owner repo contents =
     (let files = files_of lower contents;
          (package_manager, install_cmd) =
             (if ''yarn.lock'' \<in> set files then (''yarn'', ''yarn install'')
              else if ''package-lock.json'' \<in> set files then (''npm'', ''npm install'')
              else (''npm'', ''npm install''))
      in [\<lparr>title = [CHR 0xF0, CHR 0x9F, CHR 0x93, CHR 0xA6] @ '' Install Node.js Dependencies'',
           description = ''Install packages using '' @ package_manager,
           commands = [install_cmd],
           step_notes = [''Make sure you have Node.js installed (version 14+ recommended)'',
                    ''This project uses '' @ package_manager @ '' as package manager'']\<rparr>])"

definition generate_docker_steps :: "step list" where
  "generate_docker_steps =
     [\<lparr>title = [CHR 0xF0, CHR 0x9F, CHR 0x90, CHR 0xB3] @ '' Docker Setup (Alternative)'',
       description = ''Run the application using Docker'',
       commands = [''docker build -t repo-app .'',
                   ''docker run -p 8080:8080 repo-app''],
       step_notes = [''Make sure Docker is installed and running'',
                ''Check Dockerfile for specific port configurations'']\<rparr>]"

definition maven_step :: step where
  "maven_step =
     \<lparr>title = [CHR 0xE2, CHR 0x98, CHR 0x95] @ '' Java Maven Setup'',
      description = ''Build and run Java application with Maven'',
      commands = [''mvn clean install'', ''mvn spring-boot:run''],
      step_notes = [''Make sure Java 8+ and Maven are installed'']\<rparr>"

definition gradle_step :: step where
  "gradle_step =
     \<lparr>title = [CHR 0xE2, CHR 0x98, CHR 0x95] @ '' Java Gradle Setup'',
      description = ''Build and run Java application with Gradle'',
      commands = [''./gradlew build'', ''./gradlew run''],
      step_notes = [''Make sure Java 8+ is installed'', ''Gradle wrapper is included'']\<rparr>"

definition generate_java_steps :: "(string \<Rightarrow> string) \<Rightarrow> item list \<Rightarrow> step list" where
  "generate_java_steps lower contents =
     (let files = files_of lower contents in
      if ''pom.xml'' \<in> set files then [maven_step]
      else if list_ex (\<lambda>f. str_contains ''gradle'' f) files then [gradle_step]
      else [])"

text \<open>
  The cascade of \<^verbatim>\<open>generate_run_steps\<close> that fills \<^verbatim>\<open>run_commands\<close>, one
  \<^verbatim>\<open>if\<close>/\<^verbatim>\<open>elif\<close> branch per line of the outer conditional.
\<close>

definition run_commands :: "string list \<Rightarrow> string list \<Rightarrow> string list" where
  "run_commands tech_stack files =
     (if ''Streamlit'' \<in> set tech_stack then
        (if ''app.py'' \<in> set files then [''streamlit run app.py'']
         else if ''main.py'' \<in> set files then [''streamlit run main.py'']
         else [''streamlit run <main_file>.py''])
      else if ''Flask'' \<in> set tech_stack then
        (if ''app.py'' \<in> set files then [''export FLASK_APP=app.py'', ''flask run'']
         else if ''main.py'' \<in> set files then [''export FLASK_APP=main.py'', ''flask run'']
         else [''python app.py''])
      else if ''Django'' \<in> set tech_stack then
        [''python manage.py migrate'', ''python manage.py runserver'']
      else if ''FastAPI'' \<in> set tech_stack then
        (if ''main.py'' \<in> set files then [''uvicorn main:app --reload'']
         else [''uvicorn app:app --reload''])
      else if ''Node.js'' \<in> set tech_stack then
        [''npm start''] @ (if ''React'' \<in> set tech_stack then [''# Or: npm run dev''] else [])
      else if ''Python'' \<in> set tech_stack then
        (if ''main.py'' \<in> set files then [''python main.py'']
         else if ''app.py'' \<in> set files then [''python app.py'']
         else [''python <main_file>.py''])
      else [])"

definition run_step :: "string list \<Rightarrow> step" where
  "run_step cmds =
     \<lparr>title = [CHR 0xF0, CHR 0x9F, CHR 0x9A, CHR 0x80] @ '' Run the Application'',
      description = ''Start the application'',
      commands = cmds,
      step_notes = [''Check the README file for specific run instructions'',
               ''Application will typically run on localhost with a specific port'']\<rparr>"

definition env_step :: step where
  "env_step =
     \<lparr>title = [CHR 0xE2, CHR 0x9A, CHR 0x99, CHR 0xEF, CHR 0xB8, CHR 0x8F]
                @ '' Environment Configuration'',
      description = ''Set up environment variables'',
      commands = [''# Copy example environment file (if exists)'',
                  ''cp .env.example .env'',
                  ''# Edit .env file with your configurations''],
      step_notes = [''Check for .env.example or similar configuration files'',
               ''Add necessary API keys, database URLs, etc.'']\<rparr>"

definition env_files :: "string list \<Rightarrow> string list" where
  "env_files files = filter (\<lambda>f. str_contains ''.env'' f \<or> str_contains ''config'' f) files"

text \<open>The closing part of \<^verbatim>\<open>generate_run_steps\<close>: "Environment setup if needed".\<close>

definition env_steps :: "string list \<Rightarrow> step list" where
  "env_steps files = (if env_files files \<noteq> [] then [env_step] else [])"

definition generate_run_steps ::
  "(string \<Rightarrow> string) \<Rightarrow> string list \<Rightarrow> item list \<Rightarrow> string \<Rightarrow> string \<Rightarrow> step list" where
  "generate_run_steps lower tech_stack contents owner repo =
     (let files = files_of lower contents;
          cmds = run_commands tech_stack files
      in (if cmds \<noteq> [] then [run_step cmds] else []) @ env_steps files)"

section \<open>The setup plan\<close>

definition generate_setup_steps ::
  "(string \<Rightarrow> string) \<Rightarrow> string \<Rightarrow> string \<Rightarrow> string list \<Rightarrow> repo_data \<Rightarrow> item list
     \<Rightarrow> step list" where
  "generate_setup_steps lower owner repo tech_stack repo_data contents =
     [clone_step owner repo]
     @ (if ''Python'' \<in> set tech_stack then generate_python_steps lower owner repo contents else [])
     @ (if ''Node.js'' \<in> set tech_stack then generate_node_steps lower owner repo contents else [])
     @ (if ''Docker'' \<in> set tech_stack then generate_docker_steps else [])
     @ (if ''Java'' \<in> set tech_stack then generate_java_steps lower contents else [])
     @ generate_run_steps lower tech_stack contents owner repo"

section \<open>Notions used in the statements\<close>

text \<open>
  Both placeholders of \<^verbatim>\<open>generate_run_steps\<close> name the unresolved entry point as
  \<^verbatim>\<open><main_file>\<close>; a command is a placeholder when it contains that marker.
\<close>

definition placeholder_command :: "string \<Rightarrow> bool" where
  "placeholder_command cmd = str_contains ''<main_file>'' cmd"

text \<open>The tag that comes from the metadata: \<^verbatim>\<open>language\<close>, when it is a non-empty string.\<close>

definition language_tags :: "repo_data \<Rightarrow> string set" where
  "language_tags rd = (case language rd of None \<Rightarrow> {} | Some l \<Rightarrow> if l = [] then {} else {l})"

text \<open>
  The catalogue tags one of whose patterns occurs in the lower-cased file names joined by
  spaces.
\<close>

definition matched_tags :: "(string \<Rightarrow> string) \<Rightarrow> item list \<Rightarrow> string set" where
  "matched_tags lower contents =
     {tech. \<exists>patterns. (tech, patterns) \<in> set tech_patterns
                       \<and> pattern_hit (files_of lower contents) patterns}"

section \<open>Auxiliary facts\<close>

text \<open>\<open>str_contains\<close> is the substring test: \<open>p\<close> occurs somewhere inside \<open>s\<close>.\<close>

lemma take_is_prefix: "take (length p) s = p \<longleftrightarrow> (\<exists>v. s = p @ v)"
  by (metis append_eq_conv_conj append_take_drop_id)

lemma str_contains_iff: "str_contains p s \<longleftrightarrow> (\<exists>u v. s = u @ p @ v)"
proof (induction s)
  case Nil
  then show ?case by simp
next
  case (Cons c s)
  have "(\<exists>u v. c # s = u @ p @ v) \<longleftrightarrow> (\<exists>v. c # s = p @ v) \<or> (\<exists>u v. s = u @ p @ v)"
    by (auto simp: Cons_eq_append_conv)
  with Cons show ?case by (simp add: take_is_prefix del: take_Suc_Cons)
qed

lemma files_of_filter:
  "files_of lower (filter (\<lambda>item. item_type item = ''file'') contents) = files_of lower contents"
  by (simp add: files_of_def)

lemma foldl_tags:
  "set (foldl (\<lambda>stack (tech, patterns).
                 if pattern_hit files patterns then set_add tech stack else stack) init xs)
     = set init \<union> {tech. \<exists>patterns. (tech, patterns) \<in> set xs \<and> pattern_hit files patterns}"
  by (induction xs arbitrary: init) (auto simp: set_add_def split: if_splits)

lemma foldl_distinct:
  "distinct init \<Longrightarrow>
   distinct (foldl (\<lambda>stack (tech, patterns).
                      if pattern_hit files patterns then set_add tech stack else stack) init xs)"
  by (induction xs arbitrary: init) (auto simp: set_add_def split: if_splits)

lemma tech_stack_set_tags:
  "set (tech_stack_set lower contents rd) = language_tags rd \<union> matched_tags lower contents"
  by (auto simp: tech_stack_set_def Let_def foldl_tags language_tags_def matched_tags_def
        set_add_def split: option.splits)

lemma tech_stack_set_distinct: "distinct (tech_stack_set lower contents rd)"
  by (simp add: tech_stack_set_def Let_def foldl_distinct set_add_def split: option.splits)

lemma env_title_fresh:
  "title (clone_step a b) \<noteq> title env_step" "title venv_step \<noteq> title env_step"
  "title maven_step \<noteq> title env_step" "title gradle_step \<noteq> title env_step"
  "title (run_step cmds) \<noteq> title env_step"
  by (simp_all add: clone_step_def venv_step_def maven_step_def gradle_step_def env_step_def
        run_step_def)

lemma env_title_python:
  "\<forall>s \<in> set (generate_python_steps lower a b c). title s \<noteq> title env_step"
  by (simp add: generate_python_steps_def env_title_fresh) (simp add: env_step_def)

lemma env_title_node:
  "\<forall>s \<in> set (generate_node_steps lower a b c). title s \<noteq> title env_step"
  by (simp add: generate_node_steps_def env_step_def Let_def split: prod.splits)

lemma env_title_docker:
  "\<forall>s \<in> set generate_docker_steps. title s \<noteq> title env_step"
  by (simp add: generate_docker_steps_def env_step_def)

lemma env_title_java:
  "\<forall>s \<in> set (generate_java_steps lower c). title s \<noteq> title env_step"
  by (simp add: generate_java_steps_def env_title_fresh Let_def)

lemma env_steps_iff:
  "(\<exists>s \<in> set (env_steps files). title s = title env_step)
     \<longleftrightarrow> (\<exists>f \<in> set files. str_contains ''.env'' f \<or> str_contains ''config'' f)"
  by (auto simp: env_steps_def env_files_def filter_empty_conv)

section \<open>The clone step\<close>

text \<open>
  C2. For every owner, repository name, tag list, metadata and listing, the plan is not
  empty, its first step is the clone step, and that step has exactly two commands: the
  clone command and the change-directory command.
\<close>

theorem clone_step_first:
  "generate_setup_steps lower owner repo tech_stack rd contents \<noteq> []
   \<and> hd (generate_setup_steps lower owner repo tech_stack rd contents) = clone_step owner repo
   \<and> generate_setup_steps lower owner repo tech_stack rd contents ! 0 = clone_step owner repo
   \<and> length (commands (clone_step owner repo)) = 2
   \<and> commands (clone_step owner repo)
       = [''git clone https://github.com/'' @ owner @ ''/'' @ repo @ ''.git'', ''cd '' @ repo]"
  by (simp add: generate_setup_steps_def clone_step_def)

section \<open>The run step\<close>

text \<open>
  C1. Whenever the Streamlit tag is in the tag list, the run step is the one of the
  Streamlit branch whatever other tags are present: the result equals the result for the
  tag list holding Streamlit alone; its first step is the run step, written out in full,
  whose commands are the single Streamlit command for the resolved entry point; and no
  step of the result carries any other command apart from those of the environment step.
\<close>

theorem streamlit_first_match:
  "''Streamlit'' \<in> set tech_stack \<Longrightarrow>
     generate_run_steps lower tech_stack contents owner repo
       = generate_run_steps lower [''Streamlit''] contents owner repo
   \<and> generate_run_steps lower tech_stack contents owner repo
       = run_step [if ''app.py'' \<in> set (files_of lower contents) then ''streamlit run app.py''
                   else if ''main.py'' \<in> set (files_of lower contents)
                     then ''streamlit run main.py''
                   else ''streamlit run <main_file>.py'']
         # env_steps (files_of lower contents)
   \<and> hd (generate_run_steps lower tech_stack contents owner repo)
       = \<lparr>title = [CHR 0xF0, CHR 0x9F, CHR 0x9A, CHR 0x80] @ '' Run the Application'',
          description = ''Start the application'',
          commands = [if ''app.py'' \<in> set (files_of lower contents) then ''streamlit run app.py''
                      else if ''main.py'' \<in> set (files_of lower contents)
                        then ''streamlit run main.py''
                      else ''streamlit run <main_file>.py''],
          step_notes = [''Check the README file for specific run instructions'',
                        ''Application will typically run on localhost with a specific port'']\<rparr>
   \<and> commands (hd (generate_run_steps lower tech_stack contents owner repo))
       = [if ''app.py'' \<in> set (files_of lower contents) then ''streamlit run app.py''
          else if ''main.py'' \<in> set (files_of lower contents) then ''streamlit run main.py''
          else ''streamlit run <main_file>.py'']
   \<and> map commands (generate_run_steps lower tech_stack contents owner repo)
       = [if ''app.py'' \<in> set (files_of lower contents) then ''streamlit run app.py''
          else if ''main.py'' \<in> set (files_of lower contents) then ''streamlit run main.py''
          else ''streamlit run <main_file>.py'']
         # map commands (env_steps (files_of lower contents))"
  by (simp add: generate_run_steps_def run_commands_def run_step_def Let_def)

text \<open>
  The listing that holds only \<^verbatim>\<open>app.py\<close>, with the tags Flask and Streamlit: the result
  is the run step alone, its first and only command is \<^verbatim>\<open>streamlit run app.py\<close>, and no
  command of the Flask branch is in it.
\<close>

theorem streamlit_first_match_witness:
  "''Streamlit'' \<in> set [''Flask'', ''Streamlit'']
   \<and> generate_run_steps ascii_lower [''Flask'', ''Streamlit'']
        [\<lparr>item_name = ''app.py'', item_type = ''file''\<rparr>] ''o'' ''r''
       = [run_step [''streamlit run app.py'']]
   \<and> commands (hd (generate_run_steps ascii_lower [''Flask'', ''Streamlit'']
        [\<lparr>item_name = ''app.py'', item_type = ''file''\<rparr>] ''o'' ''r''))
       = [''streamlit run app.py'']
   \<and> hd (commands (hd (generate_run_steps ascii_lower [''Flask'', ''Streamlit'']
        [\<lparr>item_name = ''app.py'', item_type = ''file''\<rparr>] ''o'' ''r'')))
       = ''streamlit run app.py''
   \<and> map commands (generate_run_steps ascii_lower [''Flask'', ''Streamlit'']
        [\<lparr>item_name = ''app.py'', item_type = ''file''\<rparr>] ''o'' ''r'')
       = [[''streamlit run app.py'']]"
proof -
  have h: "''Streamlit'' \<in> set [''Flask'', ''Streamlit'']" by simp
  have f: "files_of ascii_lower [\<lparr>item_name = ''app.py'', item_type = ''file''\<rparr>] = [''app.py'']"
    by code_simp
  have e: "env_steps [''app.py''] = []" by code_simp
  note t = streamlit_first_match [OF h, of ascii_lower
      "[\<lparr>item_name = ''app.py'', item_type = ''file''\<rparr>]" "''o''" "''r''", unfolded f e]
  from t [THEN conjunct2, THEN conjunct1]
  have a: "generate_run_steps ascii_lower [''Flask'', ''Streamlit'']
        [\<lparr>item_name = ''app.py'', item_type = ''file''\<rparr>] ''o'' ''r''
       = [run_step [''streamlit run app.py'']]"
    by simp
  from t [THEN conjunct2, THEN conjunct2, THEN conjunct2, THEN conjunct1]
  have b: "commands (hd (generate_run_steps ascii_lower [''Flask'', ''Streamlit'']
        [\<lparr>item_name = ''app.py'', item_type = ''file''\<rparr>] ''o'' ''r''))
       = [''streamlit run app.py'']"
    by simp
  from t [THEN conjunct2, THEN conjunct2, THEN conjunct2, THEN conjunct2]
  have c: "map commands (generate_run_steps ascii_lower [''Flask'', ''Streamlit'']
        [\<lparr>item_name = ''app.py'', item_type = ''file''\<rparr>] ''o'' ''r'')
       = [[''streamlit run app.py'']]"
    by simp
  have d: "hd (commands (hd (generate_run_steps ascii_lower [''Flask'', ''Streamlit'']
        [\<lparr>item_name = ''app.py'', item_type = ''file''\<rparr>] ''o'' ''r'')))
       = ''streamlit run app.py''"
    unfolding b by simp
  from h a b c d show ?thesis by blast
qed

text \<open>
  C4, as the claim states it, fails: in the Flask branch, with neither \<^verbatim>\<open>app.py\<close> nor
  \<^verbatim>\<open>main.py\<close> in the listing, the run step's commands are the single command
  \<^verbatim>\<open>python app.py\<close>. It is no placeholder; it is the very command that the Python branch
  gives when \<^verbatim>\<open>app.py\<close> is there.
\<close>

theorem flask_fallback_counterexample:
  "generate_run_steps ascii_lower [''Flask''] [] ''o'' ''r'' = [run_step [''python app.py'']]
   \<and> commands (hd (generate_run_steps ascii_lower [''Flask''] [] ''o'' ''r''))
       = [''python app.py'']
   \<and> map commands (generate_run_steps ascii_lower [''Flask''] [] ''o'' ''r'')
       = [[''python app.py'']]
   \<and> \<not> placeholder_command ''python app.py''
   \<and> commands (hd (generate_run_steps ascii_lower [''Python'']
                      [\<lparr>item_name = ''app.py'', item_type = ''file''\<rparr>] ''o'' ''r''))
       = [''python app.py'']"
  by code_simp

text \<open>
  C4, amended. What each of the four branches does with the entry point, as the commands
  of the run step that opens the result:
  \<^item> Streamlit: \<^verbatim>\<open>app.py\<close>, then \<^verbatim>\<open>main.py\<close>, else a placeholder command;
  \<^item> Flask (Streamlit absent): \<^verbatim>\<open>app.py\<close>, then \<^verbatim>\<open>main.py\<close>, else the fixed default
    \<^verbatim>\<open>python app.py\<close>, which is no placeholder;
  \<^item> Node.js (Streamlit, Flask, Django, FastAPI absent): no entry point is looked for,
    the first command is \<^verbatim>\<open>npm start\<close> for every listing;
  \<^item> Python (all five absent): \<^verbatim>\<open>main.py\<close> first, then \<^verbatim>\<open>app.py\<close>, else a
    placeholder command.
\<close>

theorem entry_point_resolution:
  "(''Streamlit'' \<in> set ts \<longrightarrow>
      generate_run_steps lower ts contents owner repo =
        run_step [if ''app.py'' \<in> set (files_of lower contents) then ''streamlit run app.py''
                  else if ''main.py'' \<in> set (files_of lower contents)
                    then ''streamlit run main.py''
                  else ''streamlit run <main_file>.py'']
        # env_steps (files_of lower contents)
      \<and> commands (hd (generate_run_steps lower ts contents owner repo)) =
        [if ''app.py'' \<in> set (files_of lower contents) then ''streamlit run app.py''
         else if ''main.py'' \<in> set (files_of lower contents) then ''streamlit run main.py''
         else ''streamlit run <main_file>.py''])
   \<and> (''Streamlit'' \<notin> set ts \<and> ''Flask'' \<in> set ts \<longrightarrow>
      generate_run_steps lower ts contents owner repo =
        run_step (if ''app.py'' \<in> set (files_of lower contents)
                    then [''export FLASK_APP=app.py'', ''flask run'']
                  else if ''main.py'' \<in> set (files_of lower contents)
                    then [''export FLASK_APP=main.py'', ''flask run'']
                  else [''python app.py''])
        # env_steps (files_of lower contents)
      \<and> commands (hd (generate_run_steps lower ts contents owner repo)) =
        (if ''app.py'' \<in> set (files_of lower contents)
           then [''export FLASK_APP=app.py'', ''flask run'']
         else if ''main.py'' \<in> set (files_of lower contents)
           then [''export FLASK_APP=main.py'', ''flask run'']
         else [''python app.py'']))
   \<and> (''Streamlit'' \<notin> set ts \<and> ''Flask'' \<notin> set ts \<and> ''Django'' \<notin> set ts
        \<and> ''FastAPI'' \<notin> set ts \<and> ''Node.js'' \<in> set ts \<longrightarrow>
      generate_run_steps lower ts contents owner repo =
        run_step (''npm start'' # (if ''React'' \<in> set ts then [''# Or: npm run dev''] else []))
        # env_steps (files_of lower contents)
      \<and> commands (hd (generate_run_steps lower ts contents owner repo)) =
        ''npm start'' # (if ''React'' \<in> set ts then [''# Or: npm run dev''] else []))
   \<and> (''Streamlit'' \<notin> set ts \<and> ''Flask'' \<notin> set ts \<and> ''Django'' \<notin> set ts
        \<and> ''FastAPI'' \<notin> set ts \<and> ''Node.js'' \<notin> set ts \<and> ''Python'' \<in> set ts \<longrightarrow>
      generate_run_steps lower ts contents owner repo =
        run_step [if ''main.py'' \<in> set (files_of lower contents) then ''python main.py''
                  else if ''app.py'' \<in> set (files_of lower contents) then ''python app.py''
                  else ''python <main_file>.py'']
        # env_steps (files_of lower contents)
      \<and> commands (hd (generate_run_steps lower ts contents owner repo)) =
        [if ''main.py'' \<in> set (files_of lower contents) then ''python main.py''
         else if ''app.py'' \<in> set (files_of lower contents) then ''python app.py''
         else ''python <main_file>.py''])
   \<and> placeholder_command ''streamlit run <main_file>.py''
   \<and> placeholder_command ''python <main_file>.py''
   \<and> \<not> placeholder_command ''python app.py''"
proof -
  have p1: "placeholder_command ''streamlit run <main_file>.py''" by code_simp
  have p2: "placeholder_command ''python <main_file>.py''" by code_simp
  have p3: "\<not> placeholder_command ''python app.py''" by code_simp
  have s: "''Streamlit'' \<in> set ts \<longrightarrow>
      generate_run_steps lower ts contents owner repo =
        run_step [if ''app.py'' \<in> set (files_of lower contents) then ''streamlit run app.py''
                  else if ''main.py'' \<in> set (files_of lower contents)
                    then ''streamlit run main.py''
                  else ''streamlit run <main_file>.py'']
        # env_steps (files_of lower contents)
      \<and> commands (hd (generate_run_steps lower ts contents owner repo)) =
        [if ''app.py'' \<in> set (files_of lower contents) then ''streamlit run app.py''
         else if ''main.py'' \<in> set (files_of lower contents) then ''streamlit run main.py''
         else ''streamlit run <main_file>.py'']"
    by (simp add: generate_run_steps_def run_commands_def run_step_def Let_def)
  have f: "''Streamlit'' \<notin> set ts \<and> ''Flask'' \<in> set ts \<longrightarrow>
      generate_run_steps lower ts contents owner repo =
        run_step (if ''app.py'' \<in> set (files_of lower contents)
                    then [''export FLASK_APP=app.py'', ''flask run'']
                  else if ''main.py'' \<in> set (files_of lower contents)
                    then [''export FLASK_APP=main.py'', ''flask run'']
                  else [''python app.py''])
        # env_steps (files_of lower contents)
      \<and> commands (hd (generate_run_steps lower ts contents owner repo)) =
        (if ''app.py'' \<in> set (files_of lower contents)
           then [''export FLASK_APP=app.py'', ''flask run'']
         else if ''main.py'' \<in> set (files_of lower contents)
           then [''export FLASK_APP=main.py'', ''flask run'']
         else [''python app.py''])"
    by (simp add: generate_run_steps_def run_commands_def run_step_def Let_def)
  have n: "''Streamlit'' \<notin> set ts \<and> ''Flask'' \<notin> set ts \<and> ''Django'' \<notin> set ts
        \<and> ''FastAPI'' \<notin> set ts \<and> ''Node.js'' \<in> set ts \<longrightarrow>
      generate_run_steps lower ts contents owner repo =
        run_step (''npm start'' # (if ''React'' \<in> set ts then [''# Or: npm run dev''] else []))
        # env_steps (files_of lower contents)
      \<and> commands (hd (generate_run_steps lower ts contents owner repo)) =
        ''npm start'' # (if ''React'' \<in> set ts then [''# Or: npm run dev''] else [])"
    by (simp add: generate_run_steps_def run_commands_def run_step_def Let_def)
  have p: "''Streamlit'' \<notin> set ts \<and> ''Flask'' \<notin> set ts \<and> ''Django'' \<notin> set ts
        \<and> ''FastAPI'' \<notin> set ts \<and> ''Node.js'' \<notin> set ts \<and> ''Python'' \<in> set ts \<longrightarrow>
      generate_run_steps lower ts contents owner repo =
        run_step [if ''main.py'' \<in> set (files_of lower contents) then ''python main.py''
                  else if ''app.py'' \<in> set (files_of lower contents) then ''python app.py''
                  else ''python <main_file>.py'']
        # env_steps (files_of lower contents)
      \<and> commands (hd (generate_run_steps lower ts contents owner repo)) =
        [if ''main.py'' \<in> set (files_of lower contents) then ''python main.py''
         else if ''app.py'' \<in> set (files_of lower contents) then ''python app.py''
         else ''python <main_file>.py'']"
    by (simp add: generate_run_steps_def run_commands_def run_step_def Let_def)
  from s f n p p1 p2 p3 show ?thesis by blast
qed

theorem entry_point_resolution_witness:
  "commands (hd (generate_run_steps ascii_lower [''Flask'']
                   [\<lparr>item_name = ''main.py'', item_type = ''file''\<rparr>] ''o'' ''r''))
     = [''export FLASK_APP=main.py'', ''flask run'']
   \<and> commands (hd (generate_run_steps ascii_lower [''Flask''] [] ''o'' ''r''))
     = [''python app.py'']
   \<and> commands (hd (generate_run_steps ascii_lower [''Streamlit''] [] ''o'' ''r''))
     = [''streamlit run <main_file>.py'']
   \<and> commands (hd (generate_run_steps ascii_lower [''Node.js'']
                   [\<lparr>item_name = ''app.py'', item_type = ''file''\<rparr>] ''o'' ''r''))
     = [''npm start'']
   \<and> commands (hd (generate_run_steps ascii_lower [''Python'']
                   [\<lparr>item_name = ''app.py'', item_type = ''file''\<rparr>,
                    \<lparr>item_name = ''Main.py'', item_type = ''file''\<rparr>] ''o'' ''r''))
     = [''python main.py'']
   \<and> generate_run_steps ascii_lower [''Python'']
        [\<lparr>item_name = ''app.py'', item_type = ''file''\<rparr>,
         \<lparr>item_name = ''Main.py'', item_type = ''file''\<rparr>] ''o'' ''r''
     = [run_step [''python main.py'']]"
proof -
  have f1: "files_of ascii_lower [\<lparr>item_name = ''main.py'', item_type = ''file''\<rparr>] = [''main.py'']"
    by code_simp
  have f2: "files_of ascii_lower [] = []" by code_simp
  have f3: "files_of ascii_lower [\<lparr>item_name = ''app.py'', item_type = ''file''\<rparr>] = [''app.py'']"
    by code_simp
  have f4: "files_of ascii_lower [\<lparr>item_name = ''app.py'', item_type = ''file''\<rparr>,
                      \<lparr>item_name = ''Main.py'', item_type = ''file''\<rparr>] = [''app.py'', ''main.py'']"
    by code_simp
  have e: "env_steps [''app.py'', ''main.py''] = []" by code_simp
  have a: "commands (hd (generate_run_steps ascii_lower [''Flask'']
                   [\<lparr>item_name = ''main.py'', item_type = ''file''\<rparr>] ''o'' ''r''))
     = [''export FLASK_APP=main.py'', ''flask run'']"
    using entry_point_resolution [of "[''Flask'']" ascii_lower
        "[\<lparr>item_name = ''main.py'', item_type = ''file''\<rparr>]" "''o''" "''r''"]
    unfolding f1 by (simp add: run_step_def)
  have a': "commands (hd (generate_run_steps ascii_lower [''Flask''] [] ''o'' ''r''))
     = [''python app.py'']"
    using entry_point_resolution [of "[''Flask'']" ascii_lower "[]" "''o''" "''r''"]
    unfolding f2 by (simp add: run_step_def)
  have b: "commands (hd (generate_run_steps ascii_lower [''Streamlit''] [] ''o'' ''r''))
     = [''streamlit run <main_file>.py'']"
    using entry_point_resolution [of "[''Streamlit'']" ascii_lower "[]" "''o''" "''r''"]
    unfolding f2 by (simp add: run_step_def)
  have c: "commands (hd (generate_run_steps ascii_lower [''Node.js'']
                   [\<lparr>item_name = ''app.py'', item_type = ''file''\<rparr>] ''o'' ''r''))
     = [''npm start'']"
    using entry_point_resolution [of "[''Node.js'']" ascii_lower
        "[\<lparr>item_name = ''app.py'', item_type = ''file''\<rparr>]" "''o''" "''r''"]
    unfolding f3 by (simp add: run_step_def)
  have d: "generate_run_steps ascii_lower [''Python'']
        [\<lparr>item_name = ''app.py'', item_type = ''file''\<rparr>,
         \<lparr>item_name = ''Main.py'', item_type = ''file''\<rparr>] ''o'' ''r''
     = [run_step [''python main.py'']]
     \<and> commands (hd (generate_run_steps ascii_lower [''Python'']
                   [\<lparr>item_name = ''app.py'', item_type = ''file''\<rparr>,
                    \<lparr>item_name = ''Main.py'', item_type = ''file''\<rparr>] ''o'' ''r''))
     = [''python main.py'']"
    using entry_point_resolution [of "[''Python'']" ascii_lower
        "[\<lparr>item_name = ''app.py'', item_type = ''file''\<rparr>,
          \<lparr>item_name = ''Main.py'', item_type = ''file''\<rparr>]" "''o''" "''r''"]
    unfolding f4 e by (simp add: run_step_def)
  from a a' b c d show ?thesis by blast
qed

text \<open>
  C10. In the Node.js branch (the Node.js tag present, the Streamlit, Flask, Django and
  FastAPI tags absent) the run step's commands are \<^verbatim>\<open>npm start\<close> alone when the React
  tag is absent, and \<^verbatim>\<open>npm start\<close> followed by the comment \<^verbatim>\<open># Or: npm run dev\<close> when
  it is present.
\<close>

theorem node_run_commands:
  "''Node.js'' \<in> set tech_stack \<Longrightarrow> ''Streamlit'' \<notin> set tech_stack
   \<Longrightarrow> ''Flask'' \<notin> set tech_stack \<Longrightarrow> ''Django'' \<notin> set tech_stack
   \<Longrightarrow> ''FastAPI'' \<notin> set tech_stack
   \<Longrightarrow> generate_run_steps lower tech_stack contents owner repo
         = run_step (if ''React'' \<in> set tech_stack then [''npm start'', ''# Or: npm run dev'']
                     else [''npm start''])
           # env_steps (files_of lower contents)
       \<and> commands (hd (generate_run_steps lower tech_stack contents owner repo))
         = (if ''React'' \<in> set tech_stack then [''npm start'', ''# Or: npm run dev'']
            else [''npm start''])"
  by (simp add: generate_run_steps_def run_commands_def run_step_def)

theorem node_run_commands_witness:
  "commands (hd (generate_run_steps ascii_lower [''Node.js'', ''React''] [] ''o'' ''r''))
     = [''npm start'', ''# Or: npm run dev'']
   \<and> commands (hd (generate_run_steps ascii_lower [''Node.js''] [] ''o'' ''r'')) = [''npm start'']"
  using node_run_commands [of "[''Node.js'', ''React'']" ascii_lower "[]" "''o''" "''r''"]
    node_run_commands [of "[''Node.js'']" ascii_lower "[]" "''o''" "''r''"]
  by (simp add: run_step_def)

section \<open>The classifier\<close>

text \<open>
  C3, as the claim states it, fails: the returned list is the iteration order of a set,
  not the order "language first, then the catalogue". For the listing that holds
  \<^verbatim>\<open>package.json\<close> and the language TypeScript, the tags were added in the order
  TypeScript, Node.js, React; with the table order that puts shorter tags first the
  returned list ends with the language tag and has React before Node.js.
\<close>

theorem detect_technologies_order_counterexample:
  "tech_stack_set ascii_lower [\<lparr>item_name = ''package.json'', item_type = ''file''\<rparr>]
     \<lparr>language = Some ''TypeScript''\<rparr> = [''TypeScript'', ''Node.js'', ''React'']
   \<and> detect_technologies ascii_lower length
        [\<lparr>item_name = ''package.json'', item_type = ''file''\<rparr>]
        \<lparr>language = Some ''TypeScript''\<rparr> = [''React'', ''Node.js'', ''TypeScript'']
   \<and> hd (detect_technologies ascii_lower length
        [\<lparr>item_name = ''package.json'', item_type = ''file''\<rparr>]
        \<lparr>language = Some ''TypeScript''\<rparr>) \<noteq> ''TypeScript''"
  by code_simp

text \<open>
  C3, amended. The classifier is a function of its inputs, and for every lower-casing of
  the names and every table order the returned list has no duplicates and holds exactly
  the language tag (when the language is a non-empty string) and the catalogue tags one
  of whose patterns occurs in the lower-cased file names joined by spaces; two table
  orders give the same tags. The order of the list is the set's iteration order and is
  not fixed by the catalogue.
\<close>

theorem detect_technologies_tags:
  "set (detect_technologies lower slot contents rd)
     = language_tags rd \<union> matched_tags lower contents
   \<and> (\<forall>tag. tag \<in> set (detect_technologies lower slot contents rd) \<longleftrightarrow>
         language rd = Some tag \<and> tag \<noteq> []
         \<or> (\<exists>patterns pattern. (tag, patterns) \<in> set tech_patterns \<and> pattern \<in> set patterns
               \<and> str_contains pattern (join_space (files_of lower contents))))
   \<and> distinct (detect_technologies lower slot contents rd)
   \<and> set (detect_technologies lower slot' contents rd)
       = set (detect_technologies lower slot contents rd)"
proof -
  have m: "\<And>tag. tag \<in> language_tags rd \<union> matched_tags lower contents \<longleftrightarrow>
         language rd = Some tag \<and> tag \<noteq> []
         \<or> (\<exists>patterns pattern. (tag, patterns) \<in> set tech_patterns \<and> pattern \<in> set patterns
               \<and> str_contains pattern (join_space (files_of lower contents)))"
    by (auto simp: language_tags_def matched_tags_def pattern_hit_def list_ex_iff
          split: option.splits if_splits)
  have s: "\<And>sl. set (detect_technologies lower sl contents rd)
     = language_tags rd \<union> matched_tags lower contents"
    by (simp add: detect_technologies_def tech_stack_set_tags)
  have d: "distinct (detect_technologies lower slot contents rd)"
    by (simp add: detect_technologies_def tech_stack_set_distinct)
  from m s d show ?thesis by simp
qed

text \<open>
  A listing with \<^verbatim>\<open>Dockerfile\<close> and \<^verbatim>\<open>go.mod\<close> and the language Go: the tags are Go
  (once, though it comes both from the metadata and from the catalogue) and Docker.
\<close>

theorem detect_technologies_tags_witness:
  "set (detect_technologies ascii_lower length
          [\<lparr>item_name = ''Dockerfile'', item_type = ''file''\<rparr>,
           \<lparr>item_name = ''go.mod'', item_type = ''file''\<rparr>] \<lparr>language = Some ''Go''\<rparr>)
     = {''Go'', ''Docker''}
   \<and> language_tags \<lparr>language = Some ''Go''\<rparr>
       \<union> matched_tags ascii_lower [\<lparr>item_name = ''Dockerfile'', item_type = ''file''\<rparr>,
                                   \<lparr>item_name = ''go.mod'', item_type = ''file''\<rparr>]
     = {''Go'', ''Docker''}
   \<and> length (detect_technologies ascii_lower length
          [\<lparr>item_name = ''Dockerfile'', item_type = ''file''\<rparr>,
           \<lparr>item_name = ''go.mod'', item_type = ''file''\<rparr>] \<lparr>language = Some ''Go''\<rparr>) = 2"
proof -
  have e: "detect_technologies ascii_lower length
          [\<lparr>item_name = ''Dockerfile'', item_type = ''file''\<rparr>,
           \<lparr>item_name = ''go.mod'', item_type = ''file''\<rparr>] \<lparr>language = Some ''Go''\<rparr>
     = [''Go'', ''Docker'']"
    by code_simp
  from detect_technologies_tags [of ascii_lower length
      "[\<lparr>item_name = ''Dockerfile'', item_type = ''file''\<rparr>,
        \<lparr>item_name = ''go.mod'', item_type = ''file''\<rparr>]" "\<lparr>language = Some ''Go''\<rparr>",
      THEN conjunct1]
  have "language_tags \<lparr>language = Some ''Go''\<rparr>
       \<union> matched_tags ascii_lower [\<lparr>item_name = ''Dockerfile'', item_type = ''file''\<rparr>,
                                   \<lparr>item_name = ''go.mod'', item_type = ''file''\<rparr>]
     = {''Go'', ''Docker''}"
    unfolding e by auto
  with e show ?thesis by auto
qed

text \<open>
  The classifier reads the listing only through the lower-cased names of its files. So a
  name that \<^verbatim>\<open>str.lower\<close> folds onto an ASCII name counts like that name: the Kelvin
  sign (U+212A, in UTF-8 the bytes E2 84 AA) is folded to \<^verbatim>\<open>k\<close>, and for every \<open>lower\<close>
  that does so the file named Doc, Kelvin sign, erfile yields the Docker tag.
\<close>

lemma tech_stack_set_files:
  "files_of lower contents = files_of lower' contents' \<Longrightarrow>
     tech_stack_set lower contents rd = tech_stack_set lower' contents' rd"
  by (simp add: tech_stack_set_def)

lemma detect_technologies_kelvin_sign:
  assumes "lower (''Doc'' @ [CHR 0xE2, CHR 0x84, CHR 0xAA] @ ''erfile'') = ''dockerfile''"
  shows "detect_technologies lower slot
           [\<lparr>item_name = ''Doc'' @ [CHR 0xE2, CHR 0x84, CHR 0xAA] @ ''erfile'',
             item_type = ''file''\<rparr>] \<lparr>language = None\<rparr> = [''Docker'']"
proof -
  have "files_of lower [\<lparr>item_name = ''Doc'' @ [CHR 0xE2, CHR 0x84, CHR 0xAA] @ ''erfile'',
                         item_type = ''file''\<rparr>] = [''dockerfile'']"
    using assms by (simp add: files_of_def)
  moreover have "files_of ascii_lower [\<lparr>item_name = ''dockerfile'', item_type = ''file''\<rparr>]
                   = [''dockerfile'']"
    by code_simp
  ultimately have "tech_stack_set lower
           [\<lparr>item_name = ''Doc'' @ [CHR 0xE2, CHR 0x84, CHR 0xAA] @ ''erfile'',
             item_type = ''file''\<rparr>] \<lparr>language = None\<rparr>
        = tech_stack_set ascii_lower [\<lparr>item_name = ''dockerfile'', item_type = ''file''\<rparr>]
            \<lparr>language = None\<rparr>"
    by (intro tech_stack_set_files) simp
  moreover have "tech_stack_set ascii_lower [\<lparr>item_name = ''dockerfile'', item_type = ''file''\<rparr>]
            \<lparr>language = None\<rparr> = [''Docker'']"
    by code_simp
  ultimately show ?thesis by (simp add: detect_technologies_def)
qed

text \<open>
  C8. For the empty listing and metadata without a language the classifier returns no
  tag, and the plan built from that result is the clone step alone.
\<close>

theorem empty_input_plan:
  "detect_technologies lower slot [] \<lparr>language = None\<rparr> = []
   \<and> generate_setup_steps lower owner repo (detect_technologies lower slot [] \<lparr>language = None\<rparr>)
        \<lparr>language = None\<rparr> [] = [clone_step owner repo]"
proof -
  have f: "files_of lower [] = []" by (simp add: files_of_def)
  have h: "\<And>patterns. pattern_hit [] patterns \<longleftrightarrow> [] \<in> set patterns"
    by (auto simp: pattern_hit_def list_ex_iff)
  have n: "\<forall>(tech, patterns) \<in> set tech_patterns. [] \<notin> set patterns" by code_simp
  have "matched_tags lower [] = {}"
    using n by (auto simp: matched_tags_def f h)
  then have "set (tech_stack_set lower [] \<lparr>language = None\<rparr>) = {}"
    by (simp add: tech_stack_set_tags language_tags_def)
  then have "tech_stack_set lower [] \<lparr>language = None\<rparr> = []" by simp
  then have d: "detect_technologies lower slot [] \<lparr>language = None\<rparr> = []"
    by (simp add: detect_technologies_def)
  have "generate_setup_steps lower owner repo [] \<lparr>language = None\<rparr> [] = [clone_step owner repo]"
    by (simp add: generate_setup_steps_def generate_run_steps_def run_commands_def f
          env_steps_def env_files_def)
  with d show ?thesis by simp
qed

text \<open>
  C9. Entries whose type is not \<^verbatim>\<open>file\<close> have no influence: the classifier and the
  plan give the same result on a listing and on the listing restricted to its files.
\<close>

theorem directories_ignored:
  "detect_technologies lower slot (filter (\<lambda>item. item_type item = ''file'') contents) rd
     = detect_technologies lower slot contents rd
   \<and> generate_setup_steps lower owner repo tech_stack rd
        (filter (\<lambda>item. item_type item = ''file'') contents)
     = generate_setup_steps lower owner repo tech_stack rd contents"
  by (simp add: detect_technologies_def tech_stack_set_def generate_setup_steps_def
        generate_python_steps_def generate_node_steps_def generate_java_steps_def
        generate_run_steps_def files_of_filter)

text \<open>Directories named \<^verbatim>\<open>.streamlit\<close> and \<^verbatim>\<open>config\<close> trigger nothing.\<close>

theorem directories_ignored_witness:
  "detect_technologies ascii_lower length
     [\<lparr>item_name = ''.streamlit'', item_type = ''dir''\<rparr>,
      \<lparr>item_name = ''config'', item_type = ''dir''\<rparr>] \<lparr>language = None\<rparr> = []
   \<and> generate_setup_steps ascii_lower ''o'' ''r'' [] \<lparr>language = None\<rparr>
     [\<lparr>item_name = ''.streamlit'', item_type = ''dir''\<rparr>,
      \<lparr>item_name = ''config'', item_type = ''dir''\<rparr>] = [clone_step ''o'' ''r'']"
proof -
  have f: "filter (\<lambda>item. item_type item = ''file'')
     [\<lparr>item_name = ''.streamlit'', item_type = ''dir''\<rparr>,
      \<lparr>item_name = ''config'', item_type = ''dir''\<rparr>] = []"
    by simp
  have d: "detect_technologies ascii_lower length [] \<lparr>language = None\<rparr> = []" by code_simp
  have g: "generate_setup_steps ascii_lower ''o'' ''r'' [] \<lparr>language = None\<rparr> []
             = [clone_step ''o'' ''r'']"
    by code_simp
  from directories_ignored [of ascii_lower length
      "[\<lparr>item_name = ''.streamlit'', item_type = ''dir''\<rparr>,
        \<lparr>item_name = ''config'', item_type = ''dir''\<rparr>]" "\<lparr>language = None\<rparr>" "''o''" "''r''" "[]"]
  show ?thesis unfolding f d g by simp
qed

section \<open>The generators\<close>

text \<open>
  C5. The Python generator returns exactly two steps. The first is the fixed
  virtual-environment step, written out in full: it creates the environment and lists
  the Windows and the POSIX activation command. The second is the dependency-install
  step, whose commands are chosen by the first match among \<^verbatim>\<open>requirements.txt\<close>,
  \<^verbatim>\<open>setup.py\<close>, \<^verbatim>\<open>pyproject.toml\<close> and \<^verbatim>\<open>Pipfile\<close> (names compared in lower case),
  else a single placeholder comment. When the Python tag is present these two steps
  follow the clone step in the plan.
\<close>

theorem python_steps:
  "length (generate_python_steps lower owner repo contents) = 2
   \<and> generate_python_steps lower owner repo contents ! 0 = venv_step
   \<and> generate_python_steps lower owner repo contents ! 0 =
       \<lparr>title = [CHR 0xF0, CHR 0x9F, CHR 0x90, CHR 0x8D] @ '' Set up Python Environment'',
        description = ''Create and activate a virtual environment'',
        commands = [''python -m venv venv'',
                    ''# On Windows:'',
                    ''venv'' @ [CHR 0x5C] @ ''Scripts'' @ [CHR 0x5C] @ ''activate'',
                    ''# On macOS/Linux:'',
                    ''source venv/bin/activate''],
        step_notes = [''Python 3.7+ recommended'',
                      ''Virtual environment helps avoid dependency conflicts'']\<rparr>
   \<and> generate_python_steps lower owner repo contents ! 1 =
       \<lparr>title = [CHR 0xF0, CHR 0x9F, CHR 0x93, CHR 0xA6] @ '' Install Dependencies'',
        description = ''Install required Python packages'',
        commands =
          (if ''requirements.txt'' \<in> set (files_of lower contents)
             then [''pip install -r requirements.txt'']
           else if ''setup.py'' \<in> set (files_of lower contents) then [''pip install -e .'']
           else if ''pyproject.toml'' \<in> set (files_of lower contents) then [''pip install -e .'']
           else if ''pipfile'' \<in> set (files_of lower contents)
             then [''pip install pipenv'', ''pipenv install'']
           else [''# Check for any Python dependencies and install manually'']),
        step_notes = [''Dependencies are listed in requirements.txt or similar files'']\<rparr>
   \<and> commands (generate_python_steps lower owner repo contents ! 1) =
       (if ''requirements.txt'' \<in> set (files_of lower contents)
          then [''pip install -r requirements.txt'']
        else if ''setup.py'' \<in> set (files_of lower contents) then [''pip install -e .'']
        else if ''pyproject.toml'' \<in> set (files_of lower contents) then [''pip install -e .'']
        else if ''pipfile'' \<in> set (files_of lower contents)
          then [''pip install pipenv'', ''pipenv install'']
        else [''# Check for any Python dependencies and install manually''])
   \<and> (''Python'' \<in> set tech_stack \<longrightarrow>
        take 3 (generate_setup_steps lower owner repo tech_stack rd contents)
          = clone_step owner repo # generate_python_steps lower owner repo contents)"
  by (simp add: generate_python_steps_def install_commands_def generate_setup_steps_def
        venv_step_def)

theorem python_steps_witness:
  "commands (generate_python_steps ascii_lower ''o'' ''r''
               [\<lparr>item_name = ''requirements.txt'', item_type = ''file''\<rparr>] ! 1)
     = [''pip install -r requirements.txt'']
   \<and> commands (generate_python_steps ascii_lower ''o'' ''r''
               [\<lparr>item_name = ''Pipfile'', item_type = ''file''\<rparr>] ! 1)
     = [''pip install pipenv'', ''pipenv install'']
   \<and> commands (generate_python_steps ascii_lower ''o'' ''r''
               [\<lparr>item_name = ''requirements.txt'', item_type = ''file''\<rparr>] ! 0)
     = [''python -m venv venv'', ''# On Windows:'',
        ''venv'' @ [CHR 0x5C] @ ''Scripts'' @ [CHR 0x5C] @ ''activate'',
        ''# On macOS/Linux:'', ''source venv/bin/activate'']
   \<and> take 3 (generate_setup_steps ascii_lower ''o'' ''r'' [''Python'']
               \<lparr>language = Some ''Python''\<rparr>
               [\<lparr>item_name = ''requirements.txt'', item_type = ''file''\<rparr>])
     = clone_step ''o'' ''r''
       # generate_python_steps ascii_lower ''o'' ''r''
           [\<lparr>item_name = ''requirements.txt'', item_type = ''file''\<rparr>]"
proof -
  have f: "files_of ascii_lower [\<lparr>item_name = ''requirements.txt'', item_type = ''file''\<rparr>]
             = [''requirements.txt'']"
    by code_simp
  have g: "files_of ascii_lower [\<lparr>item_name = ''Pipfile'', item_type = ''file''\<rparr>] = [''pipfile'']"
    by code_simp
  have a: "commands (generate_python_steps ascii_lower ''o'' ''r''
               [\<lparr>item_name = ''Pipfile'', item_type = ''file''\<rparr>] ! 1)
     = [''pip install pipenv'', ''pipenv install'']"
    using python_steps [of ascii_lower "''o''" "''r''"
        "[\<lparr>item_name = ''Pipfile'', item_type = ''file''\<rparr>]"
        "[''Python'']" "\<lparr>language = Some ''Python''\<rparr>", unfolded g,
        THEN conjunct2, THEN conjunct2, THEN conjunct2, THEN conjunct2, THEN conjunct1]
    by simp
  note t = python_steps [of ascii_lower "''o''" "''r''"
      "[\<lparr>item_name = ''requirements.txt'', item_type = ''file''\<rparr>]"
      "[''Python'']" "\<lparr>language = Some ''Python''\<rparr>", unfolded f]
  note t3 = t [THEN conjunct2, THEN conjunct2, THEN conjunct1]
  note t5 = t [THEN conjunct2, THEN conjunct2, THEN conjunct2, THEN conjunct2, THEN conjunct1]
  note t6 = t [THEN conjunct2, THEN conjunct2, THEN conjunct2, THEN conjunct2, THEN conjunct2]
  from t5 have b: "commands (generate_python_steps ascii_lower ''o'' ''r''
               [\<lparr>item_name = ''requirements.txt'', item_type = ''file''\<rparr>] ! 1)
     = [''pip install -r requirements.txt'']"
    by simp
  have c: "commands (generate_python_steps ascii_lower ''o'' ''r''
               [\<lparr>item_name = ''requirements.txt'', item_type = ''file''\<rparr>] ! 0)
     = [''python -m venv venv'', ''# On Windows:'',
        ''venv'' @ [CHR 0x5C] @ ''Scripts'' @ [CHR 0x5C] @ ''activate'',
        ''# On macOS/Linux:'', ''source venv/bin/activate'']"
    unfolding t3 by simp
  from t6 have d: "take 3 (generate_setup_steps ascii_lower ''o'' ''r'' [''Python'']
               \<lparr>language = Some ''Python''\<rparr>
               [\<lparr>item_name = ''requirements.txt'', item_type = ''file''\<rparr>])
     = clone_step ''o'' ''r''
       # generate_python_steps ascii_lower ''o'' ''r''
           [\<lparr>item_name = ''requirements.txt'', item_type = ''file''\<rparr>]"
    by simp
  from a b c d show ?thesis by blast
qed

text \<open>
  C6. The Java generator: with \<^verbatim>\<open>pom.xml\<close> among the files it returns the Maven step
  alone, also when a gradle file is there; else, with a file whose name contains
  \<^verbatim>\<open>gradle\<close>, the Gradle wrapper step alone; else no step.
\<close>

theorem java_first_match:
  "(''pom.xml'' \<in> set (files_of lower contents) \<longrightarrow> generate_java_steps lower contents = [maven_step])
   \<and> (''pom.xml'' \<notin> set (files_of lower contents)
        \<and> (\<exists>f \<in> set (files_of lower contents). str_contains ''gradle'' f)
      \<longrightarrow> generate_java_steps lower contents = [gradle_step])
   \<and> (''pom.xml'' \<notin> set (files_of lower contents)
        \<and> \<not> (\<exists>f \<in> set (files_of lower contents). str_contains ''gradle'' f)
      \<longrightarrow> generate_java_steps lower contents = [])
   \<and> commands maven_step = [''mvn clean install'', ''mvn spring-boot:run'']
   \<and> commands gradle_step = [''./gradlew build'', ''./gradlew run'']"
  by (simp add: generate_java_steps_def maven_step_def gradle_step_def list_ex_iff)

theorem java_first_match_witness:
  "generate_java_steps ascii_lower [\<lparr>item_name = ''pom.xml'', item_type = ''file''\<rparr>,
                        \<lparr>item_name = ''build.gradle'', item_type = ''file''\<rparr>] = [maven_step]
   \<and> generate_java_steps ascii_lower [\<lparr>item_name = ''build.gradle'', item_type = ''file''\<rparr>]
       = [gradle_step]
   \<and> generate_java_steps ascii_lower [] = []
   \<and> generate_setup_steps ascii_lower ''o'' ''r'' [''Java''] \<lparr>language = Some ''Java''\<rparr> []
       = [clone_step ''o'' ''r'']"
proof -
  have f1: "files_of ascii_lower [\<lparr>item_name = ''pom.xml'', item_type = ''file''\<rparr>,
                      \<lparr>item_name = ''build.gradle'', item_type = ''file''\<rparr>]
              = [''pom.xml'', ''build.gradle'']"
    by code_simp
  have f2: "files_of ascii_lower [\<lparr>item_name = ''build.gradle'', item_type = ''file''\<rparr>]
              = [''build.gradle'']"
    by code_simp
  have f3: "files_of ascii_lower [] = []" by code_simp
  have s: "str_contains ''gradle'' ''build.gradle''" by code_simp
  have a: "generate_java_steps ascii_lower [\<lparr>item_name = ''pom.xml'', item_type = ''file''\<rparr>,
                        \<lparr>item_name = ''build.gradle'', item_type = ''file''\<rparr>] = [maven_step]"
    using java_first_match [of ascii_lower "[\<lparr>item_name = ''pom.xml'', item_type = ''file''\<rparr>,
                        \<lparr>item_name = ''build.gradle'', item_type = ''file''\<rparr>]"]
    unfolding f1 by simp
  have b: "generate_java_steps ascii_lower [\<lparr>item_name = ''build.gradle'', item_type = ''file''\<rparr>]
             = [gradle_step]"
    using java_first_match [of ascii_lower "[\<lparr>item_name = ''build.gradle'', item_type = ''file''\<rparr>]"] s
    unfolding f2 by simp
  have c: "generate_java_steps ascii_lower [] = []"
    using java_first_match [of ascii_lower "[]"] unfolding f3 by simp
  have d: "generate_setup_steps ascii_lower ''o'' ''r'' [''Java''] \<lparr>language = Some ''Java''\<rparr> []
       = [clone_step ''o'' ''r'']"
    using c by (simp add: generate_setup_steps_def generate_run_steps_def run_commands_def f3
        env_steps_def env_files_def)
  from a b c d show ?thesis by simp
qed

section \<open>The environment step\<close>

text \<open>
  C7. The plan holds a step titled "Environment Configuration" exactly when the listing
  has a file whose lower-cased name contains \<^verbatim>\<open>.env\<close> or \<^verbatim>\<open>config\<close>; the tag list
  plays no part. That step is the fixed \<open>env_step\<close> with its three instruction lines.
\<close>

theorem env_step_iff:
  "((\<exists>s \<in> set (generate_setup_steps lower owner repo tech_stack rd contents).
        title s = title env_step)
     \<longleftrightarrow> (\<exists>item \<in> set contents. item_type item = ''file''
            \<and> (str_contains ''.env'' (lower (item_name item))
               \<or> str_contains ''config'' (lower (item_name item)))))
   \<and> (env_step \<in> set (generate_setup_steps lower owner repo tech_stack rd contents)
     \<longleftrightarrow> (\<exists>item \<in> set contents. item_type item = ''file''
            \<and> (str_contains ''.env'' (lower (item_name item))
               \<or> str_contains ''config'' (lower (item_name item)))))
   \<and> commands env_step = [''# Copy example environment file (if exists)'',
                           ''cp .env.example .env'',
                           ''# Edit .env file with your configurations'']"
proof -
  let ?plan = "generate_setup_steps lower owner repo tech_stack rd contents"
  let ?run = "generate_run_steps lower tech_stack contents owner repo"
  let ?cond = "\<exists>item \<in> set contents. item_type item = ''file''
            \<and> (str_contains ''.env'' (lower (item_name item))
               \<or> str_contains ''config'' (lower (item_name item)))"
  have run: "(\<exists>s \<in> set ?run. title s = title env_step)
     \<longleftrightarrow> (\<exists>f \<in> set (files_of lower contents). str_contains ''.env'' f \<or> str_contains ''config'' f)"
    using env_steps_iff [of "files_of lower contents"]
    by (auto simp: generate_run_steps_def Let_def env_title_fresh)
  have files: "(\<exists>f \<in> set (files_of lower contents). str_contains ''.env'' f \<or> str_contains ''config'' f)
     \<longleftrightarrow> ?cond"
    by (auto simp: files_of_def)
  have "(\<exists>s \<in> set ?plan. title s = title env_step) \<longleftrightarrow> (\<exists>s \<in> set ?run. title s = title env_step)"
    using env_title_python env_title_node env_title_docker env_title_java
      env_title_fresh(1) [of owner repo]
    by (auto simp: generate_setup_steps_def)
  with run files have t: "(\<exists>s \<in> set ?plan. title s = title env_step) \<longleftrightarrow> ?cond" by simp
  have m1: "env_step \<in> set ?plan \<Longrightarrow> ?cond" using t by blast
  have "?cond \<Longrightarrow> env_step \<in> set ?run"
    using files by (auto simp: generate_run_steps_def Let_def env_steps_def env_files_def
        filter_empty_conv)
  then have m2: "?cond \<Longrightarrow> env_step \<in> set ?plan"
    by (simp add: generate_setup_steps_def)
  have c: "commands env_step = [''# Copy example environment file (if exists)'',
                           ''cp .env.example .env'',
                           ''# Edit .env file with your configurations'']"
    by (simp add: env_step_def)
  from t m1 m2 c show ?thesis by blast
qed

theorem env_step_iff_witness:
  "env_step \<in> set (generate_setup_steps ascii_lower ''o'' ''r'' [] \<lparr>language = None\<rparr>
                     [\<lparr>item_name = ''.env.sample'', item_type = ''file''\<rparr>])
   \<and> env_step \<in> set (generate_setup_steps ascii_lower ''o'' ''r'' [''Python''] \<lparr>language = None\<rparr>
                     [\<lparr>item_name = ''Config.YML'', item_type = ''file''\<rparr>])
   \<and> env_step \<notin> set (generate_setup_steps ascii_lower ''o'' ''r'' [''Python''] \<lparr>language = None\<rparr>
                     [\<lparr>item_name = ''main.py'', item_type = ''file''\<rparr>])"
proof -
  have a: "\<exists>item \<in> set [\<lparr>item_name = ''.env.sample'', item_type = ''file''\<rparr>].
             item_type item = ''file''
             \<and> (str_contains ''.env'' (ascii_lower (item_name item))
                \<or> str_contains ''config'' (ascii_lower (item_name item)))"
    by code_simp
  have b: "\<exists>item \<in> set [\<lparr>item_name = ''Config.YML'', item_type = ''file''\<rparr>].
             item_type item = ''file''
             \<and> (str_contains ''.env'' (ascii_lower (item_name item))
                \<or> str_contains ''config'' (ascii_lower (item_name item)))"
    by code_simp
  have c: "\<not> (\<exists>item \<in> set [\<lparr>item_name = ''main.py'', item_type = ''file''\<rparr>].
             item_type item = ''file''
             \<and> (str_contains ''.env'' (ascii_lower (item_name item))
                \<or> str_contains ''config'' (ascii_lower (item_name item))))"
    by code_simp
  from a b c
    env_step_iff [of ascii_lower "''o''" "''r''" "[]" "\<lparr>language = None\<rparr>"
      "[\<lparr>item_name = ''.env.sample'', item_type = ''file''\<rparr>]", THEN conjunct2, THEN conjunct1]
    env_step_iff [of ascii_lower "''o''" "''r''" "[''Python'']" "\<lparr>language = None\<rparr>"
      "[\<lparr>item_name = ''Config.YML'', item_type = ''file''\<rparr>]", THEN conjunct2, THEN conjunct1]
    env_step_iff [of ascii_lower "''o''" "''r''" "[''Python'']" "\<lparr>language = None\<rparr>"
      "[\<lparr>item_name = ''main.py'', item_type = ''file''\<rparr>]", THEN conjunct2, THEN conjunct1]
  show ?thesis by blast
qed

end
